theory Spec2Isabelle
  imports Complex_Main
begin

section \<open>Values exchanged with the collaborators\<close>

text \<open>
  The dialers (\<^verbatim>\<open>dialDirect\<close>, \<^verbatim>\<open>dialWebRTC\<close>), the robot service stub
  (\<^verbatim>\<open>startSession\<close>, \<^verbatim>\<open>sendSessionHeartbeat\<close>) and the timers are outside
  the two classes. Their calls are recorded in a trace and their answers arrive as events.
\<close>

datatype Code =
    Canceled | Unknown | InvalidArgument | DeadlineExceeded | NotFound | AlreadyExists
  | PermissionDenied | ResourceExhausted | FailedPrecondition | Aborted | OutOfRange
  | Unimplemented | Internal | Unavailable | DataLoss | Unauthenticated

datatype ConnectError = ConnectError string Code

fun code :: "ConnectError \<Rightarrow> Code" where
  "code (ConnectError m c) = c"

text \<open>What \<^verbatim>\<open>sendSessionHeartbeat\<close> may throw: a falsy value, an error that
  \<^verbatim>\<open>ConnectionClosedError.isError\<close> accepts, or any other error.\<close>

datatype Thrown = FalsyValue | ConnectionClosedError | OtherError

fun truthy :: "Thrown \<Rightarrow> bool" where
  "truthy FalsyValue = False"
| "truthy ConnectionClosedError = True"
| "truthy OtherError = True"

fun isError :: "Thrown \<Rightarrow> bool" where
  "isError ConnectionClosedError = True"
| "isError FalsyValue = False"
| "isError OtherError = False"

datatype DialError = DialError string

datatype Error = Error string

datatype Credentials = Credentials string string

datatype RTCPeerConnection = RTCPeerConnection nat

type_synonym RTCConfiguration = string

type_synonym TransportOptions = string

text \<open>A transport factory is either one a dialer returned, or the closure of the
  \<^verbatim>\<open>SessionManager.transportFactory\<close> getter (which builds a
  \<^verbatim>\<open>SessionTransport\<close> around the inner factory).\<close>

datatype TransportFactory = DialedFactory nat | SessionTransportFactory

record Duration =
  seconds :: int
  nanos :: int

record StartSessionResponse =
  id_resp :: string
  heartbeatWindow :: "Duration option"

record StartSessionRequest =
  resume :: string

record DialWebRTCOptions =
  disableTrickleICE :: bool
  rtcConfig_dial :: "RTCConfiguration option"
  signalingAuthEntity :: "string option"
  signalingCredentials :: "Credentials option"

record DialOptions =
  authEntity :: "string option"
  credentials :: "Credentials option"
  webrtcOptions_dial :: "DialWebRTCOptions option"

record WebRTCConnection =
  peerConnection :: RTCPeerConnection
  transportFactory_conn :: TransportFactory

text \<open>\<^verbatim>\<open>grpc.Metadata\<close>: keys with their lists of values; \<^verbatim>\<open>set\<close> replaces
  the values of a key.\<close>

type_synonym Metadata = "(string \<times> string list) list"

fun md_set :: "string \<Rightarrow> string \<Rightarrow> Metadata \<Rightarrow> Metadata" where
  "md_set k v [] = [(k, [v])]"
| "md_set k v ((k', vs) # md) =
     (if k' = k then (k, [v]) # md else (k', vs) # md_set k v md)"

section \<open>Promises, suspended calls and the trace\<close>

datatype Outcome = Fulfilled | Rejected ConnectError

text \<open>\<^verbatim>\<open>starting\<close> is created with both \<^verbatim>\<open>resolve\<close> and \<^verbatim>\<open>reject\<close>.\<close>

datatype Promise = Pending | Settled Outcome

text \<open>\<^verbatim>\<open>connecting\<close> is created with \<^verbatim>\<open>resolve\<close> only: it cannot be rejected.\<close>

datatype VoidPromise = PendingVoid | FulfilledVoid

text \<open>A call suspended at an \<^verbatim>\<open>await\<close> on one of the two shared promises, with the
  caller it belongs to: \<^verbatim>\<open>connect\<close> at its inner loop, \<^verbatim>\<open>disconnect\<close> at its
  loop, \<^verbatim>\<open>getSessionMetadata\<close> at its first loop or at its own
  \<^verbatim>\<open>await this.starting\<close> after a successful negotiation, \<^verbatim>\<open>heartbeat\<close> at its
  loop.\<close>

datatype ClientTask = ConnectAwait nat | DisconnectAwait nat

datatype SessionTask = MetadataAwait nat | MetadataAwaitOwn nat | HeartbeatAwait

datatype Microtask = ResumeClient ClientTask | ResumeSession SessionTask Outcome

datatype Obs =
    DialDirectCalled string DialOptions
  | DialWebRTCCalled string string DialOptions
  | PeerConnClosed RTCPeerConnection
  | StartSessionCalled StartSessionRequest
  | SendSessionHeartbeatCalled string
  | ConsoleError string
  | ConnectReturned nat
  | ConnectThrew nat DialError
  | DisconnectReturned nat
  | MetadataReturned nat Metadata
  | MetadataThrew nat ConnectError
  | HeartbeatThrew ConnectError

section \<open>The state of the two classes\<close>

text \<open>The fields of \<^verbatim>\<open>SessionManager\<close>. The interval is a JavaScript number; it is
  kept as an exact rational here. \<^verbatim>\<open>startResolve\<close> and \<^verbatim>\<open>startReject\<close> say whether
  the two callbacks of \<^verbatim>\<open>starting\<close> are defined.\<close>

record SessionManager =
  currentSessionID :: string
  sessionsSupported :: "bool option"
  heartbeatIntervalMs :: "rat option"
  starting :: "Promise option"
  startResolve :: bool
  startReject :: bool

record WebRTCOptions =
  enabled :: bool
  host_webrtc :: string
  signalingAddress :: string
  rtcConfig :: "RTCConfiguration option"

record SessionOptions =
  disabled :: bool

record Client =
  serviceHost :: string
  webrtcOptions :: "WebRTCOptions option"
  sessionOptions :: "SessionOptions option"
  sessionManager :: SessionManager
  peerConn :: "RTCPeerConnection option"
  transportFactory :: "TransportFactory option"
  connecting :: "VoidPromise option"
  connectResolve :: bool
  savedAuthEntity :: "string option"
  savedCreds :: "Credentials option"

text \<open>The client together with the event loop around it: who waits on which promise, the
  microtask queue, the requests in flight, the armed timers, and the trace. For a heartbeat
  in flight and for a timer the flag says whether the loop it belongs to has a worker.\<close>

record World =
  client :: Client
  window_Worker :: bool
  connectingWaiters :: "ClientTask list"
  startingWaiters :: "SessionTask list"
  microtasks :: "Microtask list"
  dialing :: "nat option"
  negotiating :: "nat option"
  heartbeatsInFlight :: "bool list"
  timers :: "(bool \<times> rat option) list"
  trace :: "Obs list"

definition sm :: "World \<Rightarrow> SessionManager" where
  "sm s = sessionManager (client s)"

definition sm_update :: "(SessionManager \<Rightarrow> SessionManager) \<Rightarrow> World \<Rightarrow> World" where
  "sm_update f s = s\<lparr>client := (client s)\<lparr>sessionManager := f (sessionManager (client s))\<rparr>\<rparr>"

definition emit :: "Obs \<Rightarrow> World \<Rightarrow> World" where
  "emit ob s = s\<lparr>trace := trace s @ [ob]\<rparr>"

definition enqueue :: "Microtask \<Rightarrow> World \<Rightarrow> World" where
  "enqueue t s = s\<lparr>microtasks := microtasks s @ [t]\<rparr>"

section \<open>SessionManager\<close>

definition new_SessionManager :: SessionManager where
  "new_SessionManager =
     \<lparr>currentSessionID = '''', sessionsSupported = None, heartbeatIntervalMs = None,
      starting = None, startResolve = False, startReject = False\<rparr>"

definition sessionID :: "SessionManager \<Rightarrow> string" where
  "sessionID m = currentSessionID m"

definition transportFactory_sm :: "SessionManager \<Rightarrow> TransportFactory" where
  "transportFactory_sm m = SessionTransportFactory"

definition getSessionMetadataInner :: "SessionManager \<Rightarrow> Metadata" where
  "getSessionMetadataInner m =
     (let md = [] in
      if sessionsSupported m = Some True \<and> currentSessionID m \<noteq> ''''
      then md_set ''viam-sid'' (currentSessionID m) md
      else md)"

definition reset :: "SessionManager \<Rightarrow> SessionManager" where
  "reset m = (if starting m \<noteq> None then m else m\<lparr>sessionsSupported := None\<rparr>)"

text \<open>Settling \<^verbatim>\<open>starting\<close> wakes everyone waiting on it; settling it again does
  nothing.\<close>

definition settle_starting :: "Outcome \<Rightarrow> World \<Rightarrow> World" where
  "settle_starting out s =
     (case starting (sm s) of
        Some Pending \<Rightarrow>
          (sm_update (\<lambda>m. m\<lparr>starting := Some (Settled out)\<rparr>) s)
            \<lparr>microtasks := microtasks s @ map (\<lambda>t. ResumeSession t out) (startingWaiters s),
             startingWaiters := []\<rparr>
      | _ \<Rightarrow> s)"

definition call_startResolve :: "World \<Rightarrow> World" where
  "call_startResolve s = (if startResolve (sm s) then settle_starting Fulfilled s else s)"

definition call_startReject :: "ConnectError \<Rightarrow> World \<Rightarrow> World" where
  "call_startReject e s = (if startReject (sm s) then settle_starting (Rejected e) s else s)"

definition await_starting :: "SessionTask \<Rightarrow> World \<Rightarrow> World" where
  "await_starting t s =
     (case starting (sm s) of
        None \<Rightarrow> enqueue (ResumeSession t Fulfilled) s
      | Some Pending \<Rightarrow> s\<lparr>startingWaiters := startingWaiters s @ [t]\<rparr>
      | Some (Settled out) \<Rightarrow> enqueue (ResumeSession t out) s)"

definition backgroundHeartbeat :: bool where
  "backgroundHeartbeat = True"

definition doHeartbeat :: "bool \<Rightarrow> World \<Rightarrow> World" where
  "doHeartbeat worker s =
     (emit (SendSessionHeartbeatCalled (currentSessionID (sm s))) s)
       \<lparr>heartbeatsInFlight := heartbeatsInFlight s @ [worker]\<rparr>"

text \<open>\<^verbatim>\<open>sendSessionHeartbeat\<close> answers the oldest heartbeat in flight: the rest of
  \<^verbatim>\<open>doHeartbeat\<close>.\<close>

definition sendSessionHeartbeat_settled :: "Thrown option \<Rightarrow> World \<Rightarrow> World" where
  "sendSessionHeartbeat_settled r s =
     (case heartbeatsInFlight s of
        [] \<Rightarrow> s
      | worker # rest \<Rightarrow>
          (let s1 = s\<lparr>heartbeatsInFlight := rest\<rparr>;
               s2 = (case r of
                       None \<Rightarrow> s1
                     | Some err \<Rightarrow>
                         if truthy err
                         then (if isError err then sm_update reset s1 else s1)
                         else s1)
           in s2\<lparr>timers := timers s2 @ [(worker, heartbeatIntervalMs (sm s2))]\<rparr>))"

text \<open>The worker's message or the timeout: \<^verbatim>\<open>doHeartbeat\<close> again.\<close>

definition timer_fired :: "nat \<Rightarrow> World \<Rightarrow> World" where
  "timer_fired n s =
     (if n < length (timers s)
      then doHeartbeat (fst (timers s ! n)) (s\<lparr>timers := take n (timers s) @ drop (Suc n) (timers s)\<rparr>)
      else s)"

definition heartbeat_begin :: "World \<Rightarrow> World" where
  "heartbeat_begin s = doHeartbeat (backgroundHeartbeat \<and> window_Worker s) s"

definition heartbeat_while :: "World \<Rightarrow> World" where
  "heartbeat_while s =
     (if starting (sm s) \<noteq> None then await_starting HeartbeatAwait s else heartbeat_begin s)"

definition heartbeat :: "World \<Rightarrow> World" where
  "heartbeat s =
     (if sessionsSupported (sm s) \<noteq> Some True \<or> currentSessionID (sm s) = ''''
      then s
      else heartbeat_while s)"

definition finally_starting :: "World \<Rightarrow> World" where
  "finally_starting s =
     sm_update (\<lambda>m. m\<lparr>startResolve := False, startReject := False, starting := None\<rparr>)
       (call_startResolve s)"

text \<open>\<^verbatim>\<open>getSessionMetadata\<close> from its first loop to its first suspension.\<close>

definition getSessionMetadata :: "nat \<Rightarrow> World \<Rightarrow> World" where
  "getSessionMetadata c s =
     (if starting (sm s) \<noteq> None then await_starting (MetadataAwait c) s
      else if sessionsSupported (sm s) \<noteq> None
      then emit (MetadataReturned c (getSessionMetadataInner (sm s))) s
      else
        (let s1 = sm_update (\<lambda>m. m\<lparr>starting := Some Pending, startResolve := True,
                                   startReject := True\<rparr>) s;
             startSessionReq = \<lparr>resume = ''''\<rparr>;
             startSessionReq = (if currentSessionID (sm s1) \<noteq> ''''
                                then startSessionReq\<lparr>resume := currentSessionID (sm s1)\<rparr>
                                else startSessionReq)
         in (emit (StartSessionCalled startSessionReq) s1)\<lparr>negotiating := Some c\<rparr>))"

text \<open>The answer of \<^verbatim>\<open>startSession\<close>: the rest of the \<^verbatim>\<open>try\<close> block, up to
  the \<^verbatim>\<open>finally\<close> or to the \<^verbatim>\<open>await this.starting\<close> of the successful path.\<close>

definition startSession_settled :: "ConnectError + StartSessionResponse \<Rightarrow> World \<Rightarrow> World" where
  "startSession_settled r s =
     (case negotiating s of
        None \<Rightarrow> s
      | Some c \<Rightarrow>
          (let s0 = s\<lparr>negotiating := None\<rparr>;
               (resp, s1) =
                 (case r of
                    Inl err \<Rightarrow>
                      (None,
                       if code err = Unimplemented
                       then call_startResolve
                              (sm_update (\<lambda>m. m\<lparr>sessionsSupported := Some False\<rparr>)
                                (emit (ConsoleError ''sessions unsupported; will not try again'') s0))
                       else call_startReject err s0)
                  | Inr resp \<Rightarrow> (Some resp, s0))
           in case resp of
                None \<Rightarrow>
                  emit (MetadataReturned c [])
                    (finally_starting
                      (call_startReject
                        (ConnectError ''expected response to start session'' Internal) s1))
              | Some resp \<Rightarrow>
                  (case heartbeatWindow resp of
                     None \<Rightarrow>
                       emit (MetadataReturned c [])
                         (finally_starting
                           (call_startReject
                             (ConnectError
                                ''expected heartbeat window in response to start session''
                                Internal) s1))
                   | Some w \<Rightarrow>
                       await_starting (MetadataAwaitOwn c)
                         (heartbeat
                           (call_startResolve
                             (sm_update
                                (\<lambda>m. m\<lparr>sessionsSupported := Some True,
                                       currentSessionID := id_resp resp,
                                       heartbeatIntervalMs :=
                                         Some ((of_int (seconds w) * 1000
                                                + of_int (nanos w) / 1000000) / 5)\<rparr>)
                                s1))))))"

text \<open>A suspended session call resumes with the outcome of the promise it awaited.\<close>

fun resume_session :: "SessionTask \<Rightarrow> Outcome \<Rightarrow> World \<Rightarrow> World" where
  "resume_session (MetadataAwait c) Fulfilled s = getSessionMetadata c s"
| "resume_session (MetadataAwait c) (Rejected e) s = emit (MetadataThrew c e) s"
| "resume_session (MetadataAwaitOwn c) Fulfilled s =
     (let md = getSessionMetadataInner (sm s)
      in emit (MetadataReturned c md) (finally_starting s))"
| "resume_session (MetadataAwaitOwn c) (Rejected e) s =
     emit (MetadataThrew c e) (finally_starting s)"
| "resume_session HeartbeatAwait Fulfilled s = heartbeat_while s"
| "resume_session HeartbeatAwait (Rejected e) s = emit (HeartbeatThrew e) s"

section \<open>Client\<close>

definition notConnectedYetStr :: string where
  "notConnectedYetStr = ''not connected yet''"

definition new_Client :: "string \<Rightarrow> WebRTCOptions option \<Rightarrow> SessionOptions option \<Rightarrow> Client" where
  "new_Client sh wo so =
     \<lparr>serviceHost = sh, webrtcOptions = wo, sessionOptions = so,
      sessionManager = new_SessionManager, peerConn = None, transportFactory = None,
      connecting = None, connectResolve = False, savedAuthEntity = None, savedCreds = None\<rparr>"

text \<open>The factory handed to the session manager by the constructor.\<close>

definition innerTransportFactory ::
    "Client \<Rightarrow> TransportOptions \<Rightarrow> Error + (TransportFactory \<times> TransportOptions)" where
  "innerTransportFactory c opts =
     (case transportFactory c of
        None \<Rightarrow> Inl (Error notConnectedYetStr)
      | Some tf \<Rightarrow> Inr (tf, opts))"

definition sessionId :: "Client \<Rightarrow> string" where
  "sessionId c = sessionID (sessionManager c)"

definition sessions_disabled :: "Client \<Rightarrow> bool" where
  "sessions_disabled c = (case sessionOptions c of None \<Rightarrow> False | Some so \<Rightarrow> disabled so)"

record ServiceClient =
  serviceHost_sc :: string
  transport_sc :: TransportFactory

definition createServiceClient :: "Client \<Rightarrow> Error + ServiceClient" where
  "createServiceClient c =
     (let clientTransportFactory =
            (if sessions_disabled c then transportFactory c
             else Some (transportFactory_sm (sessionManager c)))
      in case clientTransportFactory of
           None \<Rightarrow> Inl (Error notConnectedYetStr)
         | Some tf \<Rightarrow> Inr \<lparr>serviceHost_sc = serviceHost c, transport_sc = tf\<rparr>)"

definition host :: "Client \<Rightarrow> Error + string" where
  "host c =
     (let clientTransportFactory =
            (if sessions_disabled c then transportFactory c
             else Some (transportFactory_sm (sessionManager c)))
      in case clientTransportFactory of
           None \<Rightarrow> Inl (Error notConnectedYetStr)
         | Some tf \<Rightarrow> Inr (serviceHost c))"

definition await_connecting :: "ClientTask \<Rightarrow> World \<Rightarrow> World" where
  "await_connecting t s =
     (case connecting (client s) of
        None \<Rightarrow> enqueue (ResumeClient t) s
      | Some PendingVoid \<Rightarrow> s\<lparr>connectingWaiters := connectingWaiters s @ [t]\<rparr>
      | Some FulfilledVoid \<Rightarrow> enqueue (ResumeClient t) s)"

definition close_peerConn :: "World \<Rightarrow> World" where
  "close_peerConn s =
     (case peerConn (client s) of
        None \<Rightarrow> s
      | Some pc \<Rightarrow> (emit (PeerConnClosed pc) s)\<lparr>client := (client s)\<lparr>peerConn := None\<rparr>\<rparr>)"

text \<open>\<^verbatim>\<open>disconnect\<close>, from its loop on (also where it resumes).\<close>

definition disconnect :: "nat \<Rightarrow> World \<Rightarrow> World" where
  "disconnect c s =
     (if connecting (client s) \<noteq> None then await_connecting (DisconnectAwait c) s
      else emit (DisconnectReturned c) (sm_update reset (close_peerConn s)))"

text \<open>The inner loop of \<^verbatim>\<open>connect\<close>, where a queued caller resumes.\<close>

definition connect_while :: "nat \<Rightarrow> World \<Rightarrow> World" where
  "connect_while c s =
     (if connecting (client s) \<noteq> None then await_connecting (ConnectAwait c) s
      else emit (ConnectReturned c) s)"

definition connect :: "nat \<Rightarrow> string option \<Rightarrow> Credentials option \<Rightarrow> World \<Rightarrow> World" where
  "connect c authEntityArg credsArg s =
     (let authEntity = (case authEntityArg of None \<Rightarrow> savedAuthEntity (client s) | Some a \<Rightarrow> Some a);
          creds = (case credsArg of None \<Rightarrow> savedCreds (client s) | Some k \<Rightarrow> Some k)
      in if connecting (client s) \<noteq> None then connect_while c s
         else
           (let s1 = s\<lparr>client := (client s)\<lparr>connecting := Some PendingVoid, connectResolve := True\<rparr>\<rparr>;
                s2 = close_peerConn s1;
                s3 = sm_update reset s2;
                opts = \<lparr>authEntity = authEntity, credentials = creds,
                        webrtcOptions_dial =
                          Some \<lparr>disableTrickleICE = False,
                                rtcConfig_dial =
                                  (case webrtcOptions (client s3) of
                                     None \<Rightarrow> None | Some wo \<Rightarrow> rtcConfig wo),
                                signalingAuthEntity = None, signalingCredentials = None\<rparr>\<rparr>;
                s4 = s3\<lparr>client := (client s3)\<lparr>savedAuthEntity := authEntity, savedCreds := creds\<rparr>\<rparr>
            in case webrtcOptions (client s4) of
                 None \<Rightarrow> (emit (DialDirectCalled (serviceHost (client s4)) opts) s4)\<lparr>dialing := Some c\<rparr>
               | Some wo \<Rightarrow>
                   if enabled wo
                   then
                     (let opts = opts\<lparr>webrtcOptions_dial :=
                                   map_option
                                     (\<lambda>w. w\<lparr>signalingAuthEntity := DialOptions.authEntity opts,
                                            signalingCredentials := credentials opts\<rparr>)
                                     (webrtcOptions_dial opts)\<rparr>
                      in (emit (DialWebRTCCalled
                                  (if signalingAddress wo \<noteq> '''' then signalingAddress wo
                                   else serviceHost (client s4))
                                  (host_webrtc wo) opts) s4)\<lparr>dialing := Some c\<rparr>)
                   else (emit (DialDirectCalled (serviceHost (client s4)) opts) s4)\<lparr>dialing := Some c\<rparr>))"

definition finally_connecting :: "World \<Rightarrow> World" where
  "finally_connecting s =
     (let s1 = (if connectResolve (client s)
                then (case connecting (client s) of
                        Some PendingVoid \<Rightarrow>
                          s\<lparr>client := (client s)\<lparr>connecting := Some FulfilledVoid\<rparr>,
                            microtasks := microtasks s @ map ResumeClient (connectingWaiters s),
                            connectingWaiters := []\<rparr>
                      | _ \<Rightarrow> s)
                else s)
      in s1\<lparr>client := (client s1)\<lparr>connectResolve := False, connecting := None\<rparr>\<rparr>)"

definition webrtc_enabled :: "Client \<Rightarrow> bool" where
  "webrtc_enabled c = (case webrtcOptions c of None \<Rightarrow> False | Some wo \<Rightarrow> enabled wo)"

text \<open>The answer of \<^verbatim>\<open>dialWebRTC\<close>: the rest of \<^verbatim>\<open>connect\<close>. (Setting
  \<^verbatim>\<open>ontrack\<close> on the peer connection touches no field of the client.)\<close>

definition dialWebRTC_settled :: "DialError + WebRTCConnection \<Rightarrow> World \<Rightarrow> World" where
  "dialWebRTC_settled r s =
     (case dialing s of
        None \<Rightarrow> s
      | Some c \<Rightarrow>
          if \<not> webrtc_enabled (client s) then s
          else
            (let s0 = s\<lparr>dialing := None\<rparr>
             in case r of
                  Inl e \<Rightarrow> emit (ConnectThrew c e) (finally_connecting s0)
                | Inr webRTCConn \<Rightarrow>
                    emit (ConnectReturned c)
                      (finally_connecting
                        (s0\<lparr>client := (client s0)
                              \<lparr>peerConn := Some (peerConnection webRTCConn),
                               transportFactory := Some (transportFactory_conn webRTCConn)\<rparr>\<rparr>))))"

text \<open>The answer of \<^verbatim>\<open>dialDirect\<close>.\<close>

definition dialDirect_settled :: "DialError + TransportFactory \<Rightarrow> World \<Rightarrow> World" where
  "dialDirect_settled r s =
     (case dialing s of
        None \<Rightarrow> s
      | Some c \<Rightarrow>
          if webrtc_enabled (client s) then s
          else
            (let s0 = s\<lparr>dialing := None\<rparr>
             in case r of
                  Inl e \<Rightarrow> emit (ConnectThrew c e) (finally_connecting s0)
                | Inr tf \<Rightarrow>
                    emit (ConnectReturned c)
                      (finally_connecting
                        (s0\<lparr>client := (client s0)\<lparr>transportFactory := Some tf\<rparr>\<rparr>))))"

fun resume_client :: "ClientTask \<Rightarrow> World \<Rightarrow> World" where
  "resume_client (ConnectAwait c) s = connect_while c s"
| "resume_client (DisconnectAwait c) s = disconnect c s"

section \<open>The event loop\<close>

text \<open>
  JavaScript runs each piece of code to its next \<^verbatim>\<open>await\<close> without interruption. An
  event is one such piece: a call from outside, the answer of a collaborator (which
  resumes the call that awaits it), the firing of a timer, or the first microtask of the
  queue (a call resumed after the promise it awaited was settled).
\<close>

datatype Event =
    CallConnect nat "string option" "Credentials option"
  | CallDisconnect nat
  | CallGetSessionMetadata nat
  | CallReset
  | DialDirectSettles "DialError + TransportFactory"
  | DialWebRTCSettles "DialError + WebRTCConnection"
  | StartSessionSettles "ConnectError + StartSessionResponse"
  | SendSessionHeartbeatSettles "Thrown option"
  | TimerFires nat
  | RunMicrotask

definition run_microtask :: "World \<Rightarrow> World" where
  "run_microtask s =
     (case microtasks s of
        [] \<Rightarrow> s
      | t # rest \<Rightarrow>
          (case t of
             ResumeClient k \<Rightarrow> resume_client k (s\<lparr>microtasks := rest\<rparr>)
           | ResumeSession k out \<Rightarrow> resume_session k out (s\<lparr>microtasks := rest\<rparr>)))"

fun step :: "Event \<Rightarrow> World \<Rightarrow> World" where
  "step (CallConnect c a k) s = connect c a k s"
| "step (CallDisconnect c) s = disconnect c s"
| "step (CallGetSessionMetadata c) s = getSessionMetadata c s"
| "step CallReset s = sm_update reset s"
| "step (DialDirectSettles r) s = dialDirect_settled r s"
| "step (DialWebRTCSettles r) s = dialWebRTC_settled r s"
| "step (StartSessionSettles r) s = startSession_settled r s"
| "step (SendSessionHeartbeatSettles r) s = sendSessionHeartbeat_settled r s"
| "step (TimerFires n) s = timer_fired n s"
| "step RunMicrotask s = run_microtask s"

definition exec :: "Event list \<Rightarrow> World \<Rightarrow> World" where
  "exec evs s = fold step evs s"

definition new_World :: "Client \<Rightarrow> bool \<Rightarrow> World" where
  "new_World c w =
     \<lparr>client = c, window_Worker = w, connectingWaiters = [], startingWaiters = [],
      microtasks = [], dialing = None, negotiating = None, heartbeatsInFlight = [],
      timers = [], trace = []\<rparr>"

section \<open>Observations used in the statements\<close>

fun client_obs :: "Obs \<Rightarrow> bool" where
  "client_obs (DialDirectCalled h opts) = True"
| "client_obs (DialWebRTCCalled a h opts) = True"
| "client_obs (PeerConnClosed pc) = True"
| "client_obs (ConnectReturned c) = True"
| "client_obs (ConnectThrew c e) = True"
| "client_obs (DisconnectReturned c) = True"
| "client_obs (StartSessionCalled r) = False"
| "client_obs (SendSessionHeartbeatCalled i) = False"
| "client_obs (ConsoleError m) = False"
| "client_obs (MetadataReturned c md) = False"
| "client_obs (MetadataThrew c e) = False"
| "client_obs (HeartbeatThrew e) = False"

fun settles_dial :: "Event \<Rightarrow> bool" where
  "settles_dial (DialDirectSettles r) = True"
| "settles_dial (DialWebRTCSettles r) = True"
| "settles_dial (CallConnect c a k) = False"
| "settles_dial (CallDisconnect c) = False"
| "settles_dial (CallGetSessionMetadata c) = False"
| "settles_dial CallReset = False"
| "settles_dial (StartSessionSettles r) = False"
| "settles_dial (SendSessionHeartbeatSettles r) = False"
| "settles_dial (TimerFires n) = False"
| "settles_dial RunMicrotask = False"

text \<open>What the connection side of the client shows: every field of the client but the
  session manager, and the connection events of the trace.\<close>

definition conn_view :: "World \<Rightarrow> Client \<times> Obs list" where
  "conn_view s = ((client s)\<lparr>sessionManager := new_SessionManager\<rparr>, filter client_obs (trace s))"

text \<open>The answer of whichever dialer \<^verbatim>\<open>connect\<close> called.\<close>

definition dial_answer :: "World \<Rightarrow> DialError + WebRTCConnection \<Rightarrow> Event" where
  "dial_answer s r =
     (if webrtc_enabled (client s) then DialWebRTCSettles r
      else DialDirectSettles (case r of Inl e \<Rightarrow> Inl e | Inr conn \<Rightarrow> Inr (transportFactory_conn conn)))"

fun is_dial :: "Obs \<Rightarrow> bool" where
  "is_dial (DialDirectCalled h opts) = True"
| "is_dial (DialWebRTCCalled a h opts) = True"
| "is_dial (PeerConnClosed pc) = False"
| "is_dial (ConnectReturned c) = False"
| "is_dial (ConnectThrew c e) = False"
| "is_dial (DisconnectReturned c) = False"
| "is_dial (StartSessionCalled r) = False"
| "is_dial (SendSessionHeartbeatCalled i) = False"
| "is_dial (ConsoleError m) = False"
| "is_dial (MetadataReturned c md) = False"
| "is_dial (MetadataThrew c e) = False"
| "is_dial (HeartbeatThrew e) = False"

definition connect_result :: "nat \<Rightarrow> DialError + WebRTCConnection \<Rightarrow> Obs" where
  "connect_result c r = (case r of Inl e \<Rightarrow> ConnectThrew c e | Inr conn \<Rightarrow> ConnectReturned c)"

text \<open>The events whose handling calls \<^verbatim>\<open>reset\<close>: the public call, \<^verbatim>\<open>connect\<close>,
  \<^verbatim>\<open>disconnect\<close>, and a heartbeat failing with a closed connection.\<close>

fun calls_reset :: "Event \<Rightarrow> bool" where
  "calls_reset CallReset = True"
| "calls_reset (CallConnect c a k) = True"
| "calls_reset (CallDisconnect c) = True"
| "calls_reset (SendSessionHeartbeatSettles r) =
     (case r of None \<Rightarrow> False | Some err \<Rightarrow> truthy err \<and> isError err)"
| "calls_reset (CallGetSessionMetadata c) = False"
| "calls_reset (DialDirectSettles r) = False"
| "calls_reset (DialWebRTCSettles r) = False"
| "calls_reset (StartSessionSettles r) = False"
| "calls_reset (TimerFires n) = False"
| "calls_reset RunMicrotask = False"

fun is_disconnect :: "ClientTask \<Rightarrow> bool" where
  "is_disconnect (DisconnectAwait c) = True"
| "is_disconnect (ConnectAwait c) = False"

fun resumes_disconnect :: "Microtask \<Rightarrow> bool" where
  "resumes_disconnect (ResumeClient t) = is_disconnect t"
| "resumes_disconnect (ResumeSession t out) = False"

text \<open>A \<^verbatim>\<open>disconnect\<close> is suspended, and will call \<^verbatim>\<open>reset\<close> when it resumes.\<close>

definition disconnect_pending :: "World \<Rightarrow> bool" where
  "disconnect_pending s =
     (list_ex is_disconnect (connectingWaiters s) \<or> list_ex resumes_disconnect (microtasks s))"

fun is_startSession :: "Obs \<Rightarrow> bool" where
  "is_startSession (StartSessionCalled r) = True"
| "is_startSession (DialDirectCalled h opts) = False"
| "is_startSession (DialWebRTCCalled a h opts) = False"
| "is_startSession (PeerConnClosed pc) = False"
| "is_startSession (ConnectReturned c) = False"
| "is_startSession (ConnectThrew c e) = False"
| "is_startSession (DisconnectReturned c) = False"
| "is_startSession (SendSessionHeartbeatCalled i) = False"
| "is_startSession (ConsoleError m) = False"
| "is_startSession (MetadataReturned c md) = False"
| "is_startSession (MetadataThrew c e) = False"
| "is_startSession (HeartbeatThrew e) = False"

text \<open>Support is recorded as unsupported and nothing is about to change it.\<close>

definition unsupported_inv :: "World \<Rightarrow> bool" where
  "unsupported_inv s =
     (sessionsSupported (sm s) = Some False \<and> starting (sm s) = None \<and> negotiating s = None
      \<and> \<not> disconnect_pending s)"

definition same_startSessions :: "World \<Rightarrow> World \<Rightarrow> bool" where
  "same_startSessions s' s =
     (filter is_startSession (trace s') = filter is_startSession (trace s))"

text \<open>What closing the peer connection of a state shows in the trace.\<close>

definition closes :: "World \<Rightarrow> Obs list" where
  "closes s = (case peerConn (client s) of None \<Rightarrow> [] | Some pc \<Rightarrow> [PeerConnClosed pc])"

text \<open>Three concrete configurations: a client in WebRTC mode, a client in direct mode,
  and the answer of a server that supports sessions.\<close>

definition cam :: World where
  "cam = new_World (new_Client ''robot.local''
            (Some \<lparr>enabled = True, host_webrtc = ''robot'', signalingAddress = '''',
                   rtcConfig = None\<rparr>) None) True"

definition robot :: World where
  "robot = new_World (new_Client ''robot.local'' None None) True"

definition abc_response :: StartSessionResponse where
  "abc_response = \<lparr>id_resp = ''abc'', heartbeatWindow = Some \<lparr>seconds = 5, nanos = 0\<rparr>\<rparr>"

section \<open>Unfolding the model\<close>

lemmas session_defs =
  sm_def sm_update_def emit_def enqueue_def reset_def getSessionMetadataInner_def
  settle_starting_def call_startResolve_def call_startReject_def await_starting_def
  backgroundHeartbeat_def doHeartbeat_def sendSessionHeartbeat_settled_def timer_fired_def
  heartbeat_begin_def heartbeat_while_def heartbeat_def finally_starting_def
  getSessionMetadata_def startSession_settled_def

lemmas client_defs =
  notConnectedYetStr_def innerTransportFactory_def sessions_disabled_def transportFactory_sm_def
  createServiceClient_def host_def await_connecting_def close_peerConn_def disconnect_def
  connect_while_def connect_def finally_connecting_def webrtc_enabled_def
  dialWebRTC_settled_def dialDirect_settled_def

lemmas loop_defs =
  run_microtask_def exec_def new_World_def new_Client_def new_SessionManager_def robot_def
  abc_response_def cam_def Let_def

section \<open>Session operations leave the connection side alone\<close>

lemma conn_view_sm_update [simp]: "conn_view (sm_update f s) = conn_view s"
  by (simp add: conn_view_def sm_update_def)

lemma conn_view_emit [simp]: "\<not> client_obs ob \<Longrightarrow> conn_view (emit ob s) = conn_view s"
  by (simp add: conn_view_def emit_def)

lemma conn_view_enqueue [simp]: "conn_view (enqueue t s) = conn_view s"
  by (simp add: conn_view_def enqueue_def)

lemma conn_view_fields [simp]:
  "conn_view (s\<lparr>microtasks := ms\<rparr>) = conn_view s"
  "conn_view (s\<lparr>startingWaiters := ws\<rparr>) = conn_view s"
  "conn_view (s\<lparr>connectingWaiters := cs\<rparr>) = conn_view s"
  "conn_view (s\<lparr>negotiating := n\<rparr>) = conn_view s"
  "conn_view (s\<lparr>heartbeatsInFlight := hs\<rparr>) = conn_view s"
  "conn_view (s\<lparr>timers := ts\<rparr>) = conn_view s"
  by (simp_all add: conn_view_def)

lemma conn_view_settle_starting [simp]: "conn_view (settle_starting out s) = conn_view s"
  by (simp add: settle_starting_def split: option.splits Promise.splits)

lemma conn_view_call_startResolve [simp]: "conn_view (call_startResolve s) = conn_view s"
  by (simp add: call_startResolve_def)

lemma conn_view_call_startReject [simp]: "conn_view (call_startReject e s) = conn_view s"
  by (simp add: call_startReject_def)

lemma conn_view_await_starting [simp]: "conn_view (await_starting t s) = conn_view s"
  by (simp add: await_starting_def split: option.splits Promise.splits)

lemma conn_view_doHeartbeat [simp]: "conn_view (doHeartbeat w s) = conn_view s"
  by (simp add: doHeartbeat_def)

lemma conn_view_heartbeat_while [simp]: "conn_view (heartbeat_while s) = conn_view s"
  by (simp add: heartbeat_while_def heartbeat_begin_def)

lemma conn_view_heartbeat [simp]: "conn_view (heartbeat s) = conn_view s"
  by (simp add: heartbeat_def)

lemma conn_view_finally_starting [simp]: "conn_view (finally_starting s) = conn_view s"
  by (simp add: finally_starting_def)

lemma conn_view_getSessionMetadata [simp]: "conn_view (getSessionMetadata c s) = conn_view s"
  by (simp add: getSessionMetadata_def Let_def)

lemma conn_view_startSession_settled [simp]: "conn_view (startSession_settled r s) = conn_view s"
  by (simp add: startSession_settled_def Let_def split: option.splits sum.splits)

lemma conn_view_sendSessionHeartbeat_settled [simp]:
  "conn_view (sendSessionHeartbeat_settled r s) = conn_view s"
  by (simp add: sendSessionHeartbeat_settled_def Let_def split: list.splits option.splits)

lemma conn_view_timer_fired [simp]: "conn_view (timer_fired n s) = conn_view s"
  by (simp add: timer_fired_def)

lemma conn_view_resume_session [simp]: "conn_view (resume_session t out s) = conn_view s"
  by (cases "(t, out, s)" rule: resume_session.cases) (simp_all add: Let_def)


lemma conn_view_proj:
  "connecting (fst (conn_view s)) = connecting (client s)"
  "connectResolve (fst (conn_view s)) = connectResolve (client s)"
  "peerConn (fst (conn_view s)) = peerConn (client s)"
  "transportFactory (fst (conn_view s)) = transportFactory (client s)"
  "savedAuthEntity (fst (conn_view s)) = savedAuthEntity (client s)"
  "savedCreds (fst (conn_view s)) = savedCreds (client s)"
  "snd (conn_view s) = filter client_obs (trace s)"
  by (simp_all add: conn_view_def)

lemma conn_view_eqD:
  assumes "conn_view s' = conn_view s"
  shows "connecting (client s') = connecting (client s)"
    and "peerConn (client s') = peerConn (client s)"
    and "transportFactory (client s') = transportFactory (client s)"
    and "savedAuthEntity (client s') = savedAuthEntity (client s)"
    and "savedCreds (client s') = savedCreds (client s)"
    and "filter client_obs (trace s') = filter client_obs (trace s)"
proof -
  have f: "fst (conn_view s') = fst (conn_view s)" and t: "snd (conn_view s') = snd (conn_view s)"
    using assms by simp_all
  show "connecting (client s') = connecting (client s)"
    using arg_cong [OF f, of connecting] by (simp only: conn_view_proj)
  show "peerConn (client s') = peerConn (client s)"
    using arg_cong [OF f, of peerConn] by (simp only: conn_view_proj)
  show "transportFactory (client s') = transportFactory (client s)"
    using arg_cong [OF f, of transportFactory] by (simp only: conn_view_proj)
  show "savedAuthEntity (client s') = savedAuthEntity (client s)"
    using arg_cong [OF f, of savedAuthEntity] by (simp only: conn_view_proj)
  show "savedCreds (client s') = savedCreds (client s)"
    using arg_cong [OF f, of savedCreds] by (simp only: conn_view_proj)
  show "filter client_obs (trace s') = filter client_obs (trace s)"
    using t by (simp only: conn_view_proj)
qed

lemma conn_view_await_connecting [simp]: "conn_view (await_connecting t s) = conn_view s"
  by (simp add: await_connecting_def split: option.splits VoidPromise.splits)

lemma in_flight_resume_client:
  "connecting (client s) \<noteq> None \<Longrightarrow> conn_view (resume_client t s) = conn_view s"
  by (cases t) (simp_all add: connect_while_def disconnect_def)

lemma in_flight_run_microtask:
  "connecting (client s) \<noteq> None \<Longrightarrow> conn_view (run_microtask s) = conn_view s"
  by (simp add: run_microtask_def in_flight_resume_client split: list.splits Microtask.splits)

lemma in_flight_step:
  "connecting (client s) \<noteq> None \<Longrightarrow> \<not> settles_dial e \<Longrightarrow> conn_view (step e s) = conn_view s"
  by (cases e) (simp_all add: connect_def connect_while_def disconnect_def in_flight_run_microtask)

lemma in_flight_exec:
  "connecting (client s) \<noteq> None \<Longrightarrow> \<forall>e\<in>set evs. \<not> settles_dial e \<Longrightarrow>
   conn_view (exec evs s) = conn_view s"
proof (induction evs arbitrary: s)
  case Nil
  then show ?case by (simp add: exec_def)
next
  case (Cons e evs)
  have v: "conn_view (step e s) = conn_view s"
    using Cons.prems by (simp add: in_flight_step)
  then have "connecting (client (step e s)) = connecting (client s)"
    by (rule conn_view_eqD(1))
  then have "conn_view (exec evs (step e s)) = conn_view (step e s)"
    using Cons.IH Cons.prems by simp
  then show ?case using v by (simp add: exec_def)
qed

section \<open>Session operations on the flags and the trace\<close>

lemma settle_starting_frame:
  "trace (settle_starting out s) = trace s"
  "sessionsSupported (sm (settle_starting out s)) = sessionsSupported (sm s)"
  "currentSessionID (sm (settle_starting out s)) = currentSessionID (sm s)"
  by (simp_all add: settle_starting_def sm_def sm_update_def split: option.splits Promise.splits)

lemma call_startResolve_frame:
  "trace (call_startResolve s) = trace s"
  "sessionsSupported (sm (call_startResolve s)) = sessionsSupported (sm s)"
  "currentSessionID (sm (call_startResolve s)) = currentSessionID (sm s)"
  by (simp_all add: call_startResolve_def settle_starting_frame)

lemma call_startReject_frame:
  "trace (call_startReject e s) = trace s"
  "sessionsSupported (sm (call_startReject e s)) = sessionsSupported (sm s)"
  "currentSessionID (sm (call_startReject e s)) = currentSessionID (sm s)"
  by (simp_all add: call_startReject_def settle_starting_frame)

lemma finally_starting_frame:
  "trace (finally_starting s) = trace s"
  "sessionsSupported (sm (finally_starting s)) = sessionsSupported (sm s)"
  "currentSessionID (sm (finally_starting s)) = currentSessionID (sm s)"
  "starting (sm (finally_starting s)) = None"
  by (simp_all add: finally_starting_def sm_def sm_update_def)
    (simp_all add: sm_def [symmetric] call_startResolve_frame)

lemma emit_frame:
  "trace (emit ob s) = trace s @ [ob]"
  "sm (emit ob s) = sm s"
  by (simp_all add: emit_def sm_def)

lemma sm_update_frame:
  "sm (sm_update f s) = f (sm s)"
  "trace (sm_update f s) = trace s"
  by (simp_all add: sm_update_def sm_def)

lemma sm_fields:
  "sm (s\<lparr>negotiating := n\<rparr>) = sm s"
  "sm (s\<lparr>microtasks := ms\<rparr>) = sm s"
  "sm (s\<lparr>trace := tr\<rparr>) = sm s"
  by (simp_all add: sm_def)

lemmas session_frames =
  settle_starting_frame call_startResolve_frame call_startReject_frame finally_starting_frame
  emit_frame sm_update_frame sm_fields

lemma unsupported_call:
  "sessionsSupported (sm s) = Some False \<Longrightarrow> starting (sm s) = None \<Longrightarrow>
   getSessionMetadata d s = s\<lparr>trace := trace s @ [MetadataReturned d []]\<rparr>"
  by (simp add: getSessionMetadata_def getSessionMetadataInner_def emit_def)

lemma unsupported_calls:
  "sessionsSupported (sm s) = Some False \<Longrightarrow> starting (sm s) = None \<Longrightarrow>
   exec (map CallGetSessionMetadata ds) s
     = s\<lparr>trace := trace s @ map (\<lambda>d. MetadataReturned d []) ds\<rparr>"
proof (induction ds arbitrary: s)
  case Nil
  then show ?case by (simp add: exec_def)
next
  case (Cons d ds)
  let ?s1 = "getSessionMetadata d s"
  have s1: "?s1 = s\<lparr>trace := trace s @ [MetadataReturned d []]\<rparr>"
    using Cons.prems by (rule unsupported_call)
  have "exec (map CallGetSessionMetadata ds) ?s1
          = ?s1\<lparr>trace := trace ?s1 @ map (\<lambda>d. MetadataReturned d []) ds\<rparr>"
    by (rule Cons.IH) (simp_all add: s1 sm_fields Cons.prems)
  then show ?case by (simp add: exec_def s1)
qed

lemma unimplemented_settles:
  assumes "negotiating s = Some c" and "code err = Unimplemented"
  shows "sessionsSupported (sm (startSession_settled (Inl err) s)) = Some False"
    and "starting (sm (startSession_settled (Inl err) s)) = None"
    and "trace (startSession_settled (Inl err) s)
           = trace s @ [ConsoleError ''sessions unsupported; will not try again'',
                        MetadataReturned c []]"
  using assms
  by (simp_all add: startSession_settled_def Let_def session_frames)

section \<open>Unsupported stays unsupported\<close>

lemma inv_getSessionMetadata:
  "unsupported_inv s \<Longrightarrow>
   unsupported_inv (getSessionMetadata c s) \<and> same_startSessions (getSessionMetadata c s) s"
  by (simp add: unsupported_inv_def same_startSessions_def disconnect_pending_def
        getSessionMetadata_def emit_def sm_def)

lemma inv_doHeartbeat:
  "unsupported_inv s \<Longrightarrow>
   unsupported_inv (doHeartbeat w s) \<and> same_startSessions (doHeartbeat w s) s"
  by (simp add: unsupported_inv_def same_startSessions_def disconnect_pending_def
        doHeartbeat_def emit_def sm_def)

lemma inv_timer_fired:
  "unsupported_inv s \<Longrightarrow>
   unsupported_inv (timer_fired n s) \<and> same_startSessions (timer_fired n s) s"
proof (cases "n < length (timers s)")
  case True
  assume i: "unsupported_inv s"
  let ?s = "s\<lparr>timers := take n (timers s) @ drop (Suc n) (timers s)\<rparr>"
  have "unsupported_inv ?s" and t: "trace ?s = trace s"
    using i by (simp_all add: unsupported_inv_def disconnect_pending_def sm_def)
  then have "unsupported_inv (doHeartbeat (fst (timers s ! n)) ?s)
      \<and> same_startSessions (doHeartbeat (fst (timers s ! n)) ?s) ?s"
    by (simp add: inv_doHeartbeat)
  then show ?thesis
    using True t by (simp add: timer_fired_def same_startSessions_def)
next
  case False
  assume "unsupported_inv s"
  then show ?thesis using False by (simp add: timer_fired_def same_startSessions_def)
qed

lemma inv_sendSessionHeartbeat_settled:
  "unsupported_inv s \<Longrightarrow> \<not> calls_reset (SendSessionHeartbeatSettles r) \<Longrightarrow>
   unsupported_inv (sendSessionHeartbeat_settled r s)
   \<and> same_startSessions (sendSessionHeartbeat_settled r s) s"
  by (auto simp add: unsupported_inv_def same_startSessions_def disconnect_pending_def
        sendSessionHeartbeat_settled_def sm_def Let_def split: list.splits option.splits)

lemma inv_startSession_settled:
  "unsupported_inv s \<Longrightarrow>
   unsupported_inv (startSession_settled r s) \<and> same_startSessions (startSession_settled r s) s"
  by (simp add: unsupported_inv_def same_startSessions_def startSession_settled_def)

lemma inv_finally_connecting:
  "unsupported_inv s \<Longrightarrow> sm (finally_connecting s) = sm s
     \<and> negotiating (finally_connecting s) = negotiating s
     \<and> trace (finally_connecting s) = trace s
     \<and> \<not> disconnect_pending (finally_connecting s)"
  by (auto simp add: unsupported_inv_def disconnect_pending_def finally_connecting_def sm_def
        Let_def list_ex_iff split: option.splits VoidPromise.splits)

lemma inv_dialDirect_settled:
  "unsupported_inv s \<Longrightarrow>
   unsupported_inv (dialDirect_settled r s) \<and> same_startSessions (dialDirect_settled r s) s"
  by (auto simp add: unsupported_inv_def same_startSessions_def disconnect_pending_def
        dialDirect_settled_def finally_connecting_def emit_def sm_def Let_def list_ex_iff
        split: option.splits VoidPromise.splits sum.splits)

lemma inv_dialWebRTC_settled:
  "unsupported_inv s \<Longrightarrow>
   unsupported_inv (dialWebRTC_settled r s) \<and> same_startSessions (dialWebRTC_settled r s) s"
  by (auto simp add: unsupported_inv_def same_startSessions_def disconnect_pending_def
        dialWebRTC_settled_def finally_connecting_def emit_def sm_def Let_def list_ex_iff
        split: option.splits VoidPromise.splits sum.splits)

lemma inv_dequeue:
  "unsupported_inv s \<Longrightarrow> microtasks s = t # rest \<Longrightarrow>
   unsupported_inv (s\<lparr>microtasks := rest\<rparr>) \<and> \<not> resumes_disconnect t"
  by (auto simp add: unsupported_inv_def disconnect_pending_def sm_def)

lemma inv_connect_while:
  "unsupported_inv s \<Longrightarrow>
   unsupported_inv (connect_while c s) \<and> same_startSessions (connect_while c s) s"
  by (auto simp add: unsupported_inv_def same_startSessions_def disconnect_pending_def
        connect_while_def await_connecting_def emit_def enqueue_def sm_def
        split: option.splits VoidPromise.splits)

lemma inv_heartbeat_while:
  "unsupported_inv s \<Longrightarrow>
   unsupported_inv (heartbeat_while s) \<and> same_startSessions (heartbeat_while s) s"
  using inv_doHeartbeat [of s "backgroundHeartbeat \<and> window_Worker s"]
  by (simp add: heartbeat_while_def heartbeat_begin_def unsupported_inv_def)

lemma inv_finally_starting:
  "unsupported_inv s \<Longrightarrow>
   unsupported_inv (finally_starting s) \<and> trace (finally_starting s) = trace s"
  by (simp add: unsupported_inv_def disconnect_pending_def finally_starting_def
        call_startResolve_def settle_starting_def sm_def sm_update_def)

lemma inv_emit:
  "unsupported_inv s \<Longrightarrow> \<not> is_startSession ob \<Longrightarrow>
   unsupported_inv (emit ob s) \<and> same_startSessions (emit ob s) s"
  by (simp add: unsupported_inv_def same_startSessions_def disconnect_pending_def emit_def sm_def)

lemma same_startSessions_trans:
  "same_startSessions s'' s' \<Longrightarrow> same_startSessions s' s \<Longrightarrow> same_startSessions s'' s"
  by (simp add: same_startSessions_def)

lemma inv_resume_session:
  assumes "unsupported_inv s"
  shows "unsupported_inv (resume_session t out s) \<and> same_startSessions (resume_session t out s) s"
proof (cases "(t, out, s)" rule: resume_session.cases)
  case (1 c s')
  then show ?thesis using assms by (simp add: inv_getSessionMetadata)
next
  case (2 c e s')
  then show ?thesis using assms by (simp add: inv_emit)
next
  case (3 c s')
  have f: "unsupported_inv (finally_starting s)" "trace (finally_starting s) = trace s"
    using inv_finally_starting [OF assms] by simp_all
  have "unsupported_inv (emit (MetadataReturned c (getSessionMetadataInner (sm s))) (finally_starting s))
      \<and> same_startSessions (emit (MetadataReturned c (getSessionMetadataInner (sm s))) (finally_starting s))
           (finally_starting s)"
    using f(1) by (simp add: inv_emit)
  then show ?thesis using 3 f(2) by (simp add: Let_def same_startSessions_def)
next
  case (4 c e s')
  have f: "unsupported_inv (finally_starting s)" "trace (finally_starting s) = trace s"
    using inv_finally_starting [OF assms] by simp_all
  have "unsupported_inv (emit (MetadataThrew c e) (finally_starting s))
      \<and> same_startSessions (emit (MetadataThrew c e) (finally_starting s)) (finally_starting s)"
    using f(1) by (simp add: inv_emit)
  then show ?thesis using 4 f(2) by (simp add: same_startSessions_def)
next
  case (5 s')
  then show ?thesis using assms by (simp add: inv_heartbeat_while)
next
  case (6 e s')
  then show ?thesis using assms by (simp add: inv_emit)
qed

lemma inv_run_microtask:
  assumes "unsupported_inv s"
  shows "unsupported_inv (run_microtask s) \<and> same_startSessions (run_microtask s) s"
proof (cases "microtasks s")
  case Nil
  then show ?thesis using assms by (simp add: run_microtask_def same_startSessions_def)
next
  case (Cons t rest)
  let ?s = "s\<lparr>microtasks := rest\<rparr>"
  have d: "unsupported_inv ?s" "\<not> resumes_disconnect t"
    using inv_dequeue [OF assms Cons] by simp_all
  have tr: "trace ?s = trace s" by simp
  show ?thesis
  proof (cases t)
    case (ResumeClient k)
    then obtain c where k: "k = ConnectAwait c"
      using d(2) by (cases k) simp_all
    have "unsupported_inv (connect_while c ?s) \<and> same_startSessions (connect_while c ?s) ?s"
      using d(1) by (rule inv_connect_while)
    then show ?thesis
      using Cons ResumeClient k by (simp add: run_microtask_def same_startSessions_def)
  next
    case (ResumeSession k out)
    have "unsupported_inv (resume_session k out ?s) \<and> same_startSessions (resume_session k out ?s) ?s"
      using d(1) by (rule inv_resume_session)
    then show ?thesis
      using Cons ResumeSession by (simp add: run_microtask_def same_startSessions_def)
  qed
qed

lemma inv_step:
  "unsupported_inv s \<Longrightarrow> \<not> calls_reset e \<Longrightarrow>
   unsupported_inv (step e s) \<and> same_startSessions (step e s) s"
  by (cases e)
    (simp_all add: inv_getSessionMetadata inv_dialDirect_settled inv_dialWebRTC_settled
       inv_startSession_settled inv_sendSessionHeartbeat_settled inv_timer_fired
       inv_run_microtask del: calls_reset.simps(4))

lemma inv_exec:
  "unsupported_inv s \<Longrightarrow> \<forall>e\<in>set evs. \<not> calls_reset e \<Longrightarrow>
   unsupported_inv (exec evs s) \<and> same_startSessions (exec evs s) s"
proof (induction evs arbitrary: s)
  case Nil
  then show ?case by (simp add: exec_def same_startSessions_def)
next
  case (Cons e evs)
  have st: "unsupported_inv (step e s)" "same_startSessions (step e s) s"
    using inv_step [of s e] Cons.prems by simp_all
  have "unsupported_inv (exec evs (step e s)) \<and> same_startSessions (exec evs (step e s)) (step e s)"
    using st(1) Cons.prems(2) by (simp add: Cons.IH)
  then show ?case
    using st(2) by (auto simp add: exec_def intro: same_startSessions_trans)
qed

lemma inv_after_unimplemented:
  assumes "negotiating s = Some c" and "code err = Unimplemented" and "\<not> disconnect_pending s"
  shows "unsupported_inv (startSession_settled (Inl err) s)"
proof -
  let ?s1 = "startSession_settled (Inl err) s"
  note us = unimplemented_settles [OF assms(1,2)]
  have n: "negotiating ?s1 = None"
    using assms(1,2)
    by (simp add: startSession_settled_def Let_def finally_starting_def call_startResolve_def
          call_startReject_def settle_starting_def emit_def sm_update_def sm_def
          split: option.splits Promise.splits)
  have d: "\<not> disconnect_pending ?s1"
    using assms
    by (auto simp add: startSession_settled_def Let_def finally_starting_def call_startResolve_def
          call_startReject_def settle_starting_def emit_def sm_update_def sm_def
          disconnect_pending_def list_ex_iff
          split: option.splits Promise.splits)
  show ?thesis
    unfolding unsupported_inv_def using us(1) us(2) n d by simp
qed

section \<open>One connection attempt\<close>

lemma connect_starts:
  assumes "connecting (client s) = None"
  shows "connecting (client (connect c a k s)) = Some PendingVoid"
    and "connectResolve (client (connect c a k s))"
    and "dialing (connect c a k s) = Some c"
    and "connectingWaiters (connect c a k s) = connectingWaiters s"
    and "microtasks (connect c a k s) = microtasks s"
    and "webrtc_enabled (client (connect c a k s)) = webrtc_enabled (client s)"
    and "\<exists>d. is_dial d \<and> trace (connect c a k s) = trace (close_peerConn s) @ [d]"
    and "savedAuthEntity (client (connect c a k s)) = (case a of None \<Rightarrow> savedAuthEntity (client s) | Some x \<Rightarrow> Some x)"
    and "savedCreds (client (connect c a k s)) = (case k of None \<Rightarrow> savedCreds (client s) | Some x \<Rightarrow> Some x)"
  using assms
  by (simp_all add: connect_def Let_def close_peerConn_def emit_def sm_update_def webrtc_enabled_def
        split: option.splits)

lemma queued_connects:
  "connecting (client s) = Some PendingVoid \<Longrightarrow>
   exec (map (\<lambda>q. CallConnect (fst q) (fst (snd q)) (snd (snd q))) queued) s
     = s\<lparr>connectingWaiters := connectingWaiters s @ map (\<lambda>q. ConnectAwait (fst q)) queued\<rparr>"
proof (induction queued arbitrary: s)
  case Nil
  then show ?case by (simp add: exec_def)
next
  case (Cons g queued)
  obtain w a k where g: "g = (w, a, k)" by (cases g)
  have st: "connect w a k s = s\<lparr>connectingWaiters := connectingWaiters s @ [ConnectAwait w]\<rparr>"
    using Cons.prems by (simp add: connect_def connect_while_def await_connecting_def)
  have "exec (map (\<lambda>q. CallConnect (fst q) (fst (snd q)) (snd (snd q))) queued) (connect w a k s)
        = (connect w a k s)\<lparr>connectingWaiters := connectingWaiters (connect w a k s)
              @ map (\<lambda>q. ConnectAwait (fst q)) queued\<rparr>"
    by (rule Cons.IH) (simp add: st Cons.prems)
  then show ?case by (simp add: g exec_def st)
qed

lemma dial_settles:
  assumes "dialing s = Some c" "connecting (client s) = Some PendingVoid" "connectResolve (client s)"
    and "webrtc_enabled (client s0) = webrtc_enabled (client s)"
  shows "trace (step (dial_answer s0 r) s) = trace s @ [connect_result c r]"
    and "microtasks (step (dial_answer s0 r) s) = microtasks s @ map ResumeClient (connectingWaiters s)"
    and "connecting (client (step (dial_answer s0 r) s)) = None"
    and "connectingWaiters (step (dial_answer s0 r) s) = []"
    and "dialing (step (dial_answer s0 r) s) = None"
    and "sessionManager (client (step (dial_answer s0 r) s)) = sessionManager (client s)"
    and "peerConn (client (step (dial_answer s0 r) s)) =
           (case r of Inl e \<Rightarrow> peerConn (client s)
            | Inr conn \<Rightarrow> if webrtc_enabled (client s) then Some (peerConnection conn) else peerConn (client s))"
    and "transportFactory (client (step (dial_answer s0 r) s)) =
           (case r of Inl e \<Rightarrow> transportFactory (client s)
            | Inr conn \<Rightarrow> Some (transportFactory_conn conn))"
  using assms
  by (simp_all add: dial_answer_def dialDirect_settled_def dialWebRTC_settled_def
        finally_connecting_def emit_def connect_result_def Let_def split: sum.splits)

lemma waiters_return:
  "connecting (client s) = None \<Longrightarrow>
   microtasks s = map (\<lambda>w. ResumeClient (ConnectAwait w)) ws @ rest \<Longrightarrow>
   exec (replicate (length ws) RunMicrotask) s
     = s\<lparr>microtasks := rest, trace := trace s @ map ConnectReturned ws\<rparr>"
proof (induction ws arbitrary: s)
  case Nil
  then show ?case by (simp add: exec_def)
next
  case (Cons w ws)
  let ?s1 = "run_microtask s"
  have s1: "?s1 = s\<lparr>microtasks := map (\<lambda>w. ResumeClient (ConnectAwait w)) ws @ rest,
                     trace := trace s @ [ConnectReturned w]\<rparr>"
    using Cons.prems by (simp add: run_microtask_def connect_while_def emit_def)
  have "exec (replicate (length ws) RunMicrotask) ?s1
          = ?s1\<lparr>microtasks := rest, trace := trace ?s1 @ map ConnectReturned ws\<rparr>"
    by (rule Cons.IH) (simp_all add: s1 Cons.prems)
  then show ?case by (simp add: exec_def s1)
qed


lemma is_dial_client_obs: "is_dial ob \<Longrightarrow> client_obs ob"
  by (cases ob) simp_all

lemma filter_is_dial_client_obs: "filter is_dial (filter client_obs tr) = filter is_dial tr"
  by (induction tr) (auto dest: is_dial_client_obs)

lemma conn_view_dials:
  "conn_view s' = conn_view s \<Longrightarrow> filter is_dial (trace s') = filter is_dial (trace s)"
  using arg_cong [OF conn_view_eqD(6), of s' s "filter is_dial"]
  by (simp only: filter_is_dial_client_obs)

lemma dials_close_peerConn: "filter is_dial (trace (close_peerConn s)) = filter is_dial (trace s)"
  by (simp add: close_peerConn_def emit_def split: option.splits)

lemma queued_connect_step:
  "connecting (client s) \<noteq> None \<Longrightarrow> connect c a k s = await_connecting (ConnectAwait c) s"
  by (simp add: connect_def connect_while_def)

lemma resumed_connect_frame:
  "filter is_dial (trace (resume_client (ConnectAwait c) w)) = filter is_dial (trace w)"
  "savedAuthEntity (client (resume_client (ConnectAwait c) w)) = savedAuthEntity (client w)"
  "savedCreds (client (resume_client (ConnectAwait c) w)) = savedCreds (client w)"
  by (simp_all add: connect_while_def await_connecting_def emit_def enqueue_def
        split: option.splits VoidPromise.splits)

lemma disconnect_idle:
  assumes "connecting (client s) = None"
  shows "trace (disconnect d s) = trace s @ closes s @ [DisconnectReturned d]"
    and "client (disconnect d s)
           = (client s)\<lparr>peerConn := None, sessionManager := reset (sessionManager (client s))\<rparr>"
  using assms
  by (simp_all add: disconnect_def close_peerConn_def closes_def sm_update_def emit_def
        split: option.splits)

lemma queued_disconnect_step:
  "connecting (client s) = Some PendingVoid \<Longrightarrow>
   disconnect d s = s\<lparr>connectingWaiters := connectingWaiters s @ [DisconnectAwait d]\<rparr>"
  by (simp add: disconnect_def await_connecting_def)

section \<open>Connecting\<close>

text \<open>
  C1 (amended). From a client with no connect in flight, one call to \<^verbatim>\<open>connect\<close>
  followed by any number of further calls made while it is in flight invokes the dialer
  exactly once; whatever else happens before the dial settles, no further dial is made and
  no call completes; when the dial settles, the caller that started the attempt observes
  its outcome (the failure, if it failed), and every queued caller then returns normally,
  whatever the outcome was.
\<close>

theorem connect_single_dial:
  assumes "connecting (client s) = None" and "connectingWaiters s = []" and "microtasks s = []"
    and "\<forall>e\<in>set evs. \<not> settles_dial e"
  shows "(let s1 = exec (CallConnect c a k
                         # map (\<lambda>q. CallConnect (fst q) (fst (snd q)) (snd (snd q))) queued) s;
              s2 = exec (dial_answer s r # replicate (length queued) RunMicrotask) s1
          in length (filter is_dial (trace s1)) = Suc (length (filter is_dial (trace s)))
             \<and> trace s1 = trace (connect c a k s)
             \<and> dialing s1 = Some c
             \<and> filter client_obs (trace (exec evs s1)) = filter client_obs (trace s1)
             \<and> trace s2 = trace s1 @ connect_result c r # map (\<lambda>q. ConnectReturned (fst q)) queued
             \<and> connecting (client s2) = None)"
proof -
  let ?s0 = "connect c a k s"
  let ?s1 = "exec (map (\<lambda>q. CallConnect (fst q) (fst (snd q)) (snd (snd q))) queued) ?s0"
  let ?s2 = "step (dial_answer s r) ?s1"
  let ?s3 = "exec (replicate (length queued) RunMicrotask) ?s2"
  note cs = connect_starts [OF assms(1), of c a k]
  have s1: "?s1 = ?s0\<lparr>connectingWaiters := map (\<lambda>q. ConnectAwait (fst q)) queued\<rparr>"
    using queued_connects [OF cs(1), of queued] by (simp add: cs(4) assms(2))
  obtain d where d: "is_dial d" "trace ?s0 = trace (close_peerConn s) @ [d]"
    using cs(7) by blast
  have dials: "length (filter is_dial (trace ?s1)) = Suc (length (filter is_dial (trace s)))"
    by (simp add: s1 d dials_close_peerConn)
  have pre: "dialing ?s1 = Some c" "connecting (client ?s1) = Some PendingVoid"
    "connectResolve (client ?s1)" "webrtc_enabled (client s) = webrtc_enabled (client ?s1)"
    by (simp_all add: s1 cs)
  note ds = dial_settles [OF pre, of r]
  have "connecting (client ?s1) \<noteq> None"
    using pre(2) by simp
  then have "conn_view (exec evs ?s1) = conn_view ?s1"
    using assms(4) by (rule in_flight_exec)
  then have fl: "filter client_obs (trace (exec evs ?s1)) = filter client_obs (trace ?s1)"
    by (rule conn_view_eqD(6))
  have m2: "microtasks ?s2 = map (\<lambda>w. ResumeClient (ConnectAwait w)) (map fst queued) @ []"
    by (simp add: ds(2)) (simp add: s1 cs(5) assms(3) comp_def)
  have s3: "?s3 = ?s2\<lparr>microtasks := [], trace := trace ?s2 @ map ConnectReturned (map fst queued)\<rparr>"
    using waiters_return [OF ds(3) m2] by simp
  have "trace ?s3 = trace ?s2 @ map ConnectReturned (map fst queued)"
    by (subst s3) simp
  then have t3: "trace ?s3 = trace ?s1 @ connect_result c r # map (\<lambda>q. ConnectReturned (fst q)) queued"
    using ds(1) by (simp add: comp_def)
  have "client ?s3 = client ?s2"
    by (subst s3) simp
  then have c3: "connecting (client ?s3) = None"
    using ds(3) by simp
  have e1: "exec (CallConnect c a k
                  # map (\<lambda>q. CallConnect (fst q) (fst (snd q)) (snd (snd q))) queued) s = ?s1"
    by (simp add: exec_def)
  have e2: "exec (dial_answer s r # replicate (length queued) RunMicrotask) ?s1 = ?s3"
    by (simp add: exec_def)
  have a1: "trace ?s1 = trace ?s0"
    by (simp add: s1)
  show ?thesis
    unfolding Let_def e1 e2 by (intro conjI dials a1 pre(1) fl t3 c3)
qed

theorem connect_single_dial_witness:
  "(let s1 = exec [CallConnect 2 (Some ''me'') None, CallConnect 3 (Some ''you'') None,
                   CallConnect 4 None None] robot;
        s2 = exec [DialDirectSettles (Inl (DialError ''unreachable'')),
                   RunMicrotask, RunMicrotask] s1
    in connecting (client robot) = None \<and> connectingWaiters robot = [] \<and> microtasks robot = []
       \<and> trace s1
           = [DialDirectCalled ''robot.local''
                \<lparr>authEntity = Some ''me'', credentials = None,
                 webrtcOptions_dial =
                   Some \<lparr>disableTrickleICE = False, rtcConfig_dial = None,
                         signalingAuthEntity = None, signalingCredentials = None\<rparr>\<rparr>]
       \<and> filter client_obs (trace (exec [CallConnect 5 None None, RunMicrotask,
                                          CallGetSessionMetadata 6] s1))
           = filter client_obs (trace s1)
       \<and> trace s2 = trace s1 @ [ConnectThrew 2 (DialError ''unreachable''),
                                 ConnectReturned 3, ConnectReturned 4])"
proof -
  let ?queued = "[(3, Some ''you'', None), (4, None, None)]
                   :: (nat \<times> string option \<times> Credentials option) list"
  let ?evs = "[CallConnect 5 None None, RunMicrotask, CallGetSessionMetadata 6]"
  let ?r = "Inl (DialError ''unreachable'') :: DialError + WebRTCConnection"
  let ?s1 = "exec (CallConnect 2 (Some ''me'') None
                   # map (\<lambda>q. CallConnect (fst q) (fst (snd q)) (snd (snd q))) ?queued) robot"
  let ?s2 = "exec (dial_answer robot ?r # replicate (length ?queued) RunMicrotask) ?s1"
  have idle: "connecting (client robot) = None" "connectingWaiters robot = []"
    "microtasks robot = []"
    by (simp_all add: robot_def new_World_def new_Client_def)
  have evs: "\<forall>e\<in>set ?evs. \<not> settles_dial e"
    by simp
  note th = connect_single_dial [OF idle evs, of 2 "Some ''me''" None ?queued ?r,
      unfolded Let_def]
  have a: "trace ?s1 = trace (connect 2 (Some ''me'') None robot)"
    using th by blast
  have b: "filter client_obs (trace (exec ?evs ?s1)) = filter client_obs (trace ?s1)"
    using th by blast
  have c: "trace ?s2 = trace ?s1 @ connect_result 2 ?r # map (\<lambda>q. ConnectReturned (fst q)) ?queued"
    using th by blast
  have da: "dial_answer robot ?r = DialDirectSettles (Inl (DialError ''unreachable''))"
    by (simp add: dial_answer_def webrtc_enabled_def robot_def new_World_def new_Client_def)
  have t: "trace (connect 2 (Some ''me'') None robot)
      = [DialDirectCalled ''robot.local''
                \<lparr>authEntity = Some ''me'', credentials = None,
                 webrtcOptions_dial =
                   Some \<lparr>disableTrickleICE = False, rtcConfig_dial = None,
                         signalingAuthEntity = None, signalingCredentials = None\<rparr>\<rparr>]"
    by (simp add: session_defs client_defs loop_defs)
  have c': "trace ?s2 = trace ?s1 @ [ConnectThrew 2 (DialError ''unreachable''),
                                   ConnectReturned 3, ConnectReturned 4]"
    unfolding c by (simp add: connect_result_def)
  show ?thesis
    unfolding Let_def using idle a [unfolded t] b c' [unfolded da] by simp
qed

text \<open>
  C1 as stated fails: a second caller queued behind a failing dial does not observe the
  failure; its call returns normally, and only the first caller's call throws.
\<close>

theorem connect_failure_not_fanned_out:
  "(let tr = trace (exec [CallConnect 1 (Some ''me'') None, CallConnect 2 (Some ''you'') None,
                          DialDirectSettles (Inl (DialError ''unreachable'')), RunMicrotask] robot)
    in ConnectThrew 1 (DialError ''unreachable'') \<in> set tr
       \<and> ConnectThrew 2 (DialError ''unreachable'') \<notin> set tr
       \<and> ConnectReturned 2 \<in> set tr)"
  by (simp add: session_defs client_defs loop_defs)

text \<open>
  C10. A call \<^verbatim>\<open>connect(authEntity, creds)\<close> made while another connect is in flight
  does not use its arguments: the call does the same whatever they are, and, whatever else
  happens until the dial settles, no dial is made and the saved auth identity and saved
  credentials stay those of the attempt in flight; the queued caller, when it resumes,
  neither dials nor writes them.
\<close>

theorem queued_connect_ignores_arguments:
  assumes "connecting (client s) \<noteq> None" and "\<forall>e\<in>set evs. \<not> settles_dial e"
  shows "step (CallConnect c a k) s = step (CallConnect c a' k') s
         \<and> (let s' = exec (CallConnect c a k # evs) s
            in filter is_dial (trace s') = filter is_dial (trace s)
               \<and> savedAuthEntity (client s') = savedAuthEntity (client s)
               \<and> savedCreds (client s') = savedCreds (client s))
         \<and> filter is_dial (trace (resume_client (ConnectAwait c) w)) = filter is_dial (trace w)
         \<and> savedAuthEntity (client (resume_client (ConnectAwait c) w)) = savedAuthEntity (client w)
         \<and> savedCreds (client (resume_client (ConnectAwait c) w)) = savedCreds (client w)"
proof -
  have "\<forall>e\<in>set (CallConnect c a k # evs). \<not> settles_dial e"
    using assms(2) by simp
  then have v: "conn_view (exec (CallConnect c a k # evs) s) = conn_view s"
    by (rule in_flight_exec [OF assms(1)])
  have "filter is_dial (trace (exec (CallConnect c a k # evs) s)) = filter is_dial (trace s)"
    using v by (rule conn_view_dials)
  moreover have "savedAuthEntity (client (exec (CallConnect c a k # evs) s)) = savedAuthEntity (client s)"
    using v by (rule conn_view_eqD(4))
  moreover have "savedCreds (client (exec (CallConnect c a k # evs) s)) = savedCreds (client s)"
    using v by (rule conn_view_eqD(5))
  moreover have "step (CallConnect c a k) s = step (CallConnect c a' k') s"
    using assms(1) by (simp add: queued_connect_step)
  ultimately show ?thesis
    unfolding Let_def using resumed_connect_frame [of c w] by blast
qed

theorem queued_connect_ignores_arguments_witness:
  "(let s = exec [CallConnect 1 (Some ''me'') (Some (Credentials ''api-key'' ''k1''))] robot;
        s' = exec [CallConnect 2 (Some ''you'') (Some (Credentials ''api-key'' ''k2'')),
                   CallGetSessionMetadata 3, RunMicrotask] s;
        w = exec [DialDirectSettles (Inr (DialedFactory 7))] s'
    in connecting (client s) = Some PendingVoid
       \<and> step (CallConnect 2 (Some ''you'') (Some (Credentials ''api-key'' ''k2''))) s
           = step (CallConnect 2 None None) s
       \<and> filter is_dial (trace s') = filter is_dial (trace s)
       \<and> savedAuthEntity (client s') = Some ''me''
       \<and> savedCreds (client s') = Some (Credentials ''api-key'' ''k1'')
       \<and> microtasks w = [ResumeClient (ConnectAwait 2)]
       \<and> savedAuthEntity (client (step RunMicrotask w)) = Some ''me''
       \<and> savedCreds (client (step RunMicrotask w)) = Some (Credentials ''api-key'' ''k1''))"
proof -
  let ?s = "exec [CallConnect 1 (Some ''me'') (Some (Credentials ''api-key'' ''k1''))] robot"
  let ?evs = "[CallGetSessionMetadata 3, RunMicrotask]"
  let ?w = "exec [DialDirectSettles (Inr (DialedFactory 7))]
              (exec (CallConnect 2 (Some ''you'') (Some (Credentials ''api-key'' ''k2'')) # ?evs) ?s)"
  have c: "connecting (client ?s) \<noteq> None"
    and c': "connecting (client ?s) = Some PendingVoid"
    and sv: "savedAuthEntity (client ?s) = Some ''me''"
      "savedCreds (client ?s) = Some (Credentials ''api-key'' ''k1'')"
    by (simp_all add: session_defs client_defs loop_defs)
  have e: "\<forall>e\<in>set ?evs. \<not> settles_dial e"
    by simp
  have w: "microtasks ?w = [ResumeClient (ConnectAwait 2)]"
    "savedAuthEntity (client ?w) = Some ''me''"
    "savedCreds (client ?w) = Some (Credentials ''api-key'' ''k1'')"
    by (simp_all add: session_defs client_defs loop_defs)
  have r: "step RunMicrotask ?w = resume_client (ConnectAwait 2) (?w\<lparr>microtasks := []\<rparr>)"
    by (simp only: step.simps run_microtask_def w(1) list.case Microtask.case)
  show ?thesis
    using queued_connect_ignores_arguments [OF c e, of 2 "Some ''you''"
        "Some (Credentials ''api-key'' ''k2'')" None None "?w\<lparr>microtasks := []\<rparr>"]
      c' sv w r
    unfolding Let_def by simp
qed

section \<open>Disconnecting\<close>

text \<open>
  C5 (amended). \<^verbatim>\<open>disconnect\<close> called while a connect is in flight is queued behind it:
  whatever else happens before the dial settles, no peer connection is closed and the
  disconnect does not return. Once the connect has settled (or at once, when none is in
  flight) it closes and clears the peer connection, if there is one, calls the session
  manager's \<^verbatim>\<open>reset\<close>, and returns; every other field of the client, the transport
  factory among them, is left as it was. With no peer connection it does nothing but
  the wait and the reset.
\<close>

theorem disconnect_waits_then_closes_peer:
  assumes "connecting (client s) = None" and "connectingWaiters s = []" and "microtasks s = []"
    and "\<forall>e\<in>set evs. \<not> settles_dial e"
  shows "(let s1 = exec [CallConnect c a k, CallDisconnect d] s;
              s2 = step (dial_answer s r) s1;
              s3 = step RunMicrotask s2
          in trace s1 = trace (connect c a k s)
             \<and> client s1 = client (connect c a k s)
             \<and> filter client_obs (trace (exec evs s1)) = filter client_obs (trace s1)
             \<and> peerConn (client (exec evs s1)) = peerConn (client s1)
             \<and> trace s2 = trace s1 @ [connect_result c r]
             \<and> trace s3 = trace s2 @ closes s2 @ [DisconnectReturned d]
             \<and> client s3
                 = (client s2)\<lparr>peerConn := None,
                               sessionManager := reset (sessionManager (client s2))\<rparr>)
         \<and> (let s' = step (CallDisconnect d) s
            in trace s' = trace s @ closes s @ [DisconnectReturned d]
               \<and> client s'
                   = (client s)\<lparr>peerConn := None,
                                sessionManager := reset (sessionManager (client s))\<rparr>)"
proof -
  let ?s0 = "connect c a k s"
  let ?s1 = "disconnect d ?s0"
  let ?s2 = "step (dial_answer s r) ?s1"
  let ?s3 = "run_microtask ?s2"
  note cs = connect_starts [OF assms(1), of c a k]
  have s1: "?s1 = ?s0\<lparr>connectingWaiters := [DisconnectAwait d]\<rparr>"
    using queued_disconnect_step [OF cs(1), of d] by (simp add: cs(4) assms(2))
  have pre: "dialing ?s1 = Some c" "connecting (client ?s1) = Some PendingVoid"
    "connectResolve (client ?s1)" "webrtc_enabled (client s) = webrtc_enabled (client ?s1)"
    by (simp_all add: s1 cs)
  note ds = dial_settles [OF pre, of r]
  have fl: "connecting (client ?s1) \<noteq> None"
    using pre(2) by simp
  have v: "conn_view (exec evs ?s1) = conn_view ?s1"
    using fl assms(4) by (rule in_flight_exec)
  have v1: "filter client_obs (trace (exec evs ?s1)) = filter client_obs (trace ?s1)"
    using v by (rule conn_view_eqD(6))
  have v2: "peerConn (client (exec evs ?s1)) = peerConn (client ?s1)"
    using v by (rule conn_view_eqD(2))
  have m2: "microtasks ?s2 = [ResumeClient (DisconnectAwait d)]"
    by (simp add: ds(2)) (simp add: s1 cs(5) assms(3))
  have r3: "?s3 = disconnect d (?s2\<lparr>microtasks := []\<rparr>)"
    by (simp only: run_microtask_def m2 list.case Microtask.case resume_client.simps)
  have i3: "connecting (client (?s2\<lparr>microtasks := []\<rparr>)) = None"
    using ds(3) by simp
  have t3: "trace ?s3 = trace ?s2 @ closes ?s2 @ [DisconnectReturned d]"
    unfolding r3 disconnect_idle(1) [OF i3] by (simp add: closes_def)
  have c3: "client ?s3
      = (client ?s2)\<lparr>peerConn := None, sessionManager := reset (sessionManager (client ?s2))\<rparr>"
    unfolding r3 disconnect_idle(2) [OF i3] by simp
  have e1: "exec [CallConnect c a k, CallDisconnect d] s = ?s1"
    by (simp add: exec_def)
  have a1: "trace ?s1 = trace ?s0" "client ?s1 = client ?s0"
    by (simp_all add: s1)
  show ?thesis
    unfolding Let_def e1 step.simps(10) step.simps(2)
    using a1 v1 v2 ds(1) t3 c3 disconnect_idle [OF assms(1), of d] by blast
qed

theorem disconnect_waits_then_closes_peer_witness:
  "(let conn = \<lparr>peerConnection = RTCPeerConnection 4, transportFactory_conn = DialedFactory 7\<rparr>;
        s1 = exec [CallConnect 2 None None, CallDisconnect 3] cam;
        s2 = step (DialWebRTCSettles (Inr conn)) s1;
        s3 = step RunMicrotask s2
    in connecting (client cam) = None \<and> connectingWaiters cam = [] \<and> microtasks cam = []
       \<and> filter client_obs (trace (exec [CallGetSessionMetadata 4, RunMicrotask] s1))
           = filter client_obs (trace s1)
       \<and> trace s3 = trace s1 @ [ConnectReturned 2, PeerConnClosed (RTCPeerConnection 4),
                                 DisconnectReturned 3]
       \<and> peerConn (client s2) = Some (RTCPeerConnection 4)
       \<and> peerConn (client s3) = None
       \<and> transportFactory (client s3) = Some (DialedFactory 7)
       \<and> trace (step (CallDisconnect 3) cam) = [DisconnectReturned 3])"
proof -
  let ?conn = "\<lparr>peerConnection = RTCPeerConnection 4, transportFactory_conn = DialedFactory 7\<rparr>"
  let ?evs = "[CallGetSessionMetadata 4, RunMicrotask]"
  let ?s1 = "exec [CallConnect 2 None None, CallDisconnect 3] cam"
  let ?s2 = "step (dial_answer cam (Inr ?conn)) ?s1"
  let ?s3 = "step RunMicrotask ?s2"
  have idle: "connecting (client cam) = None" "connectingWaiters cam = []" "microtasks cam = []"
    by (simp_all add: cam_def new_World_def new_Client_def)
  have evs: "\<forall>e\<in>set ?evs. \<not> settles_dial e"
    by simp
  note th = disconnect_waits_then_closes_peer [OF idle evs, of 2 None None 3 "Inr ?conn",
      unfolded Let_def]
  have a: "filter client_obs (trace (exec ?evs ?s1)) = filter client_obs (trace ?s1)"
    using th by blast
  have b: "trace ?s2 = trace ?s1 @ [connect_result 2 (Inr ?conn)]"
    using th by blast
  have c: "trace ?s3 = trace ?s2 @ closes ?s2 @ [DisconnectReturned 3]"
    using th by blast
  have d: "client ?s3
      = (client ?s2)\<lparr>peerConn := None, sessionManager := reset (sessionManager (client ?s2))\<rparr>"
    using th by blast
  have e: "trace (step (CallDisconnect 3) cam) = trace cam @ closes cam @ [DisconnectReturned 3]"
    using th by blast
  have da: "dial_answer cam (Inr ?conn) = DialWebRTCSettles (Inr ?conn)"
    by (simp add: dial_answer_def webrtc_enabled_def cam_def new_World_def new_Client_def)
  have p2: "peerConn (client ?s2) = Some (RTCPeerConnection 4)"
    and t2: "transportFactory (client ?s2) = Some (DialedFactory 7)"
    unfolding da by (simp_all add: cam_def session_defs client_defs loop_defs)
  have c0: "closes cam = []" "trace cam = []"
    by (simp_all add: closes_def cam_def new_World_def new_Client_def)
  have cl: "closes ?s2 = [PeerConnClosed (RTCPeerConnection 4)]"
    by (simp add: closes_def p2)
  have t3: "trace ?s3 = trace ?s1 @ [ConnectReturned 2, PeerConnClosed (RTCPeerConnection 4),
                                    DisconnectReturned 3]"
    unfolding c b cl by (simp add: connect_result_def)
  have p3: "peerConn (client ?s3) = None" "transportFactory (client ?s3) = Some (DialedFactory 7)"
    unfolding d using t2 by simp_all
  have e': "trace (step (CallDisconnect 3) cam) = [DisconnectReturned 3]"
    unfolding e c0 by simp
  show ?thesis
    unfolding Let_def using idle a t3 p2 p3 e' unfolding da by blast
qed

text \<open>
  C5 as stated fails: after a direct connect, \<^verbatim>\<open>disconnect\<close> closes nothing and the
  client still holds the dialed transport factory, which \<^verbatim>\<open>createServiceClient\<close>
  hands out.
\<close>

theorem disconnect_keeps_transport_factory:
  "(let s = exec [CallConnect 1 None None, DialDirectSettles (Inr (DialedFactory 7)),
                  CallDisconnect 2]
              (new_World (new_Client ''robot.local'' None (Some \<lparr>disabled = True\<rparr>)) True)
    in transportFactory (client s) = Some (DialedFactory 7)
       \<and> PeerConnClosed (RTCPeerConnection 4) \<notin> set (trace s)
       \<and> DisconnectReturned 2 \<in> set (trace s)
       \<and> createServiceClient (client s)
           = Inr \<lparr>serviceHost_sc = ''robot.local'', transport_sc = DialedFactory 7\<rparr>)"
  by (simp add: session_defs client_defs loop_defs)

section \<open>The readiness guard\<close>

text \<open>
  C2 (amended). With sessions disabled by configuration and no transport factory,
  \<^verbatim>\<open>createServiceClient\<close> and \<^verbatim>\<open>host\<close> both fail with "not connected yet". With
  sessions not disabled, \<^verbatim>\<open>createServiceClient\<close> succeeds with a client bound to the
  session manager's factory, also when no transport factory exists; the "not connected
  yet" failure is then raised by the inner factory, when it is invoked with no transport
  factory. Whenever a transport factory exists, \<^verbatim>\<open>host\<close> returns the service host.
\<close>

theorem not_connected_guard:
  "(sessions_disabled c \<and> transportFactory c = None \<longrightarrow>
      createServiceClient c = Inl (Error ''not connected yet'')
      \<and> host c = Inl (Error ''not connected yet''))
   \<and> (\<not> sessions_disabled c \<longrightarrow>
      createServiceClient c
        = Inr \<lparr>serviceHost_sc = serviceHost c, transport_sc = transportFactory_sm (sessionManager c)\<rparr>)
   \<and> (transportFactory c = None \<longrightarrow>
      innerTransportFactory c opts = Inl (Error ''not connected yet''))
   \<and> (transportFactory c \<noteq> None \<longrightarrow> host c = Inr (serviceHost c))"
  by (auto simp add: client_defs split: option.splits)

theorem not_connected_guard_witness:
  "createServiceClient (new_Client ''robot.local'' None (Some \<lparr>disabled = True\<rparr>))
     = Inl (Error ''not connected yet'')
   \<and> host (new_Client ''robot.local'' None (Some \<lparr>disabled = True\<rparr>))
     = Inl (Error ''not connected yet'')
   \<and> createServiceClient (new_Client ''robot.local'' None (Some \<lparr>disabled = False\<rparr>))
     = Inr \<lparr>serviceHost_sc = ''robot.local'', transport_sc = SessionTransportFactory\<rparr>
   \<and> innerTransportFactory (new_Client ''robot.local'' None (Some \<lparr>disabled = False\<rparr>)) ''opts''
     = Inl (Error ''not connected yet'')
   \<and> host (client (exec [CallConnect 1 None None, DialDirectSettles (Inr (DialedFactory 7))]
                      (new_World (new_Client ''robot.local'' None (Some \<lparr>disabled = True\<rparr>)) True)))
     = Inr ''robot.local''"
  using not_connected_guard [of "new_Client ''robot.local'' None (Some \<lparr>disabled = True\<rparr>)" "''opts''"]
    not_connected_guard [of "new_Client ''robot.local'' None (Some \<lparr>disabled = False\<rparr>)" "''opts''"]
    not_connected_guard [of "client (exec [CallConnect 1 None None, DialDirectSettles (Inr (DialedFactory 7))]
                      (new_World (new_Client ''robot.local'' None (Some \<lparr>disabled = True\<rparr>)) True))" "''opts''"]
  by (simp add: session_defs client_defs loop_defs)

text \<open>
  C2 as stated fails: on a new client with sessions enabled (no session options), which
  has no transport factory, \<^verbatim>\<open>createServiceClient\<close> does not fail.
\<close>

theorem sessions_enabled_never_not_connected:
  "transportFactory (new_Client ''robot.local'' None None) = None
   \<and> createServiceClient (new_Client ''robot.local'' None None)
     = Inr \<lparr>serviceHost_sc = ''robot.local'', transport_sc = SessionTransportFactory\<rparr>"
  by (simp add: client_defs loop_defs)

section \<open>Negotiating a session\<close>



text \<open>
  C3, evaluated on the code. A negotiation whose answer lacks the heartbeat window, and one
  whose \<^verbatim>\<open>startSession\<close> fails with a code other than unimplemented, both end with the
  call returning empty metadata to its caller: no error reaches the caller.
\<close>

theorem negotiation_failure_returns_empty_metadata:
  "trace (exec [CallGetSessionMetadata 1,
                StartSessionSettles (Inr \<lparr>id_resp = ''abc'', heartbeatWindow = None\<rparr>)] robot)
     = [StartSessionCalled \<lparr>resume = ''''\<rparr>, MetadataReturned 1 []]
   \<and> trace (exec [CallGetSessionMetadata 1,
                   StartSessionSettles (Inl (ConnectError ''unavailable'' Unavailable))] robot)
     = [StartSessionCalled \<lparr>resume = ''''\<rparr>, MetadataReturned 1 []]"
  by (simp add: session_defs loop_defs)

text \<open>
  C6. When \<^verbatim>\<open>startSession\<close> fails with the code unimplemented, support is recorded
  as unsupported and the call returns empty metadata. From then on, as long as nothing
  calls \<^verbatim>\<open>reset\<close> (no disconnect being pending either), whatever else happens (calls,
  resumed waiters, timers, heartbeats answered or failing otherwise than by a closed
  connection, dials settling), support stays unsupported and no \<^verbatim>\<open>startSession\<close> is
  sent; every \<^verbatim>\<open>getSessionMetadata\<close> call, however many, returns empty metadata at
  once and leaves the session manager as it is.
\<close>

theorem unsupported_is_sticky:
  assumes "negotiating s = Some c" and "code err = Unimplemented"
    and "\<not> disconnect_pending s" and "\<forall>e\<in>set evs. \<not> calls_reset e"
  shows "(let s1 = step (StartSessionSettles (Inl err)) s;
              s2 = exec evs s1;
              s3 = exec (map CallGetSessionMetadata ds) s2
          in sessionsSupported (sm s1) = Some False
             \<and> trace s1 = trace s @ [ConsoleError ''sessions unsupported; will not try again'',
                                      MetadataReturned c []]
             \<and> sessionsSupported (sm s2) = Some False
             \<and> filter is_startSession (trace s2) = filter is_startSession (trace s)
             \<and> sm s3 = sm s2
             \<and> trace s3 = trace s2 @ map (\<lambda>d. MetadataReturned d []) ds)"
proof -
  let ?s1 = "startSession_settled (Inl err) s"
  let ?s2 = "exec evs ?s1"
  let ?s3 = "exec (map CallGetSessionMetadata ds) ?s2"
  note us = unimplemented_settles [OF assms(1,2)]
  have i1: "unsupported_inv ?s1"
    using assms(1,2,3) by (rule inv_after_unimplemented)
  have i2: "unsupported_inv ?s2" "same_startSessions ?s2 ?s1"
    using inv_exec [OF i1 assms(4)] by simp_all
  have f1: "filter is_startSession (trace ?s1) = filter is_startSession (trace s)"
    by (simp add: us(3))
  have f2: "filter is_startSession (trace ?s2) = filter is_startSession (trace s)"
    using i2(2) f1 by (simp add: same_startSessions_def)
  have u2: "sessionsSupported (sm ?s2) = Some False" "starting (sm ?s2) = None"
    using i2(1) by (simp_all add: unsupported_inv_def)
  have "?s3 = ?s2\<lparr>trace := trace ?s2 @ map (\<lambda>d. MetadataReturned d []) ds\<rparr>"
    using u2 by (rule unsupported_calls)
  then have s3: "sm ?s3 = sm ?s2" "trace ?s3 = trace ?s2 @ map (\<lambda>d. MetadataReturned d []) ds"
    by (simp_all add: sm_fields)
  show ?thesis
    unfolding Let_def step.simps by (intro conjI us(1) us(3) u2(1) f2 s3)
qed

theorem unsupported_is_sticky_witness:
  "(let s = exec [CallGetSessionMetadata 2, CallGetSessionMetadata 3] robot;
        evs = [RunMicrotask, TimerFires 0, SendSessionHeartbeatSettles (Some OtherError),
               CallGetSessionMetadata 4, DialDirectSettles (Inl (DialError ''late''))];
        s2 = exec (StartSessionSettles (Inl (ConnectError ''no such method'' Unimplemented))
                   # evs) s;
        s3 = exec [CallGetSessionMetadata 5, CallGetSessionMetadata 6] s2
    in negotiating s = Some 2
       \<and> code (ConnectError ''no such method'' Unimplemented) = Unimplemented
       \<and> \<not> disconnect_pending s
       \<and> trace s = [StartSessionCalled \<lparr>resume = ''''\<rparr>]
       \<and> sessionsSupported (sm s2) = Some False
       \<and> filter is_startSession (trace s2) = [StartSessionCalled \<lparr>resume = ''''\<rparr>]
       \<and> trace s3 = trace s2 @ [MetadataReturned 5 [], MetadataReturned 6 []])"
proof -
  let ?s = "exec [CallGetSessionMetadata 2, CallGetSessionMetadata 3] robot"
  let ?evs = "[RunMicrotask, TimerFires 0, SendSessionHeartbeatSettles (Some OtherError),
               CallGetSessionMetadata 4, DialDirectSettles (Inl (DialError ''late''))]"
  let ?err = "ConnectError ''no such method'' Unimplemented"
  let ?ds = "[5, 6] :: nat list"
  have n: "negotiating ?s = Some 2"
    and t: "trace ?s = [StartSessionCalled \<lparr>resume = ''''\<rparr>]"
    and p: "\<not> disconnect_pending ?s"
    by (simp_all add: session_defs loop_defs disconnect_pending_def)
  have k: "code ?err = Unimplemented"
    by simp
  have q: "\<forall>e\<in>set ?evs. \<not> calls_reset e"
    by simp
  note th = unsupported_is_sticky [OF n k p q, of ?ds, unfolded Let_def]
  have a: "sessionsSupported (sm (exec ?evs (step (StartSessionSettles (Inl ?err)) ?s))) = Some False"
    using th by blast
  have b: "filter is_startSession (trace (exec ?evs (step (StartSessionSettles (Inl ?err)) ?s)))
             = filter is_startSession (trace ?s)"
    using th by blast
  have c: "trace (exec (map CallGetSessionMetadata ?ds) (exec ?evs (step (StartSessionSettles (Inl ?err)) ?s)))
             = trace (exec ?evs (step (StartSessionSettles (Inl ?err)) ?s))
               @ map (\<lambda>d. MetadataReturned d []) ?ds"
    using th by blast
  have e: "exec (StartSessionSettles (Inl ?err) # ?evs) ?s
             = exec ?evs (step (StartSessionSettles (Inl ?err)) ?s)"
    by (simp add: exec_def)
  show ?thesis
    unfolding Let_def e using n k p t a b [unfolded t] c by simp
qed

section \<open>Reset\<close>

text \<open>
  C8. \<^verbatim>\<open>reset\<close> called while a negotiation is in flight changes nothing, so whatever
  follows runs as if it had not been called. Called otherwise it clears the support flag
  only: the session id stays, and the next \<^verbatim>\<open>getSessionMetadata\<close> sends
  \<^verbatim>\<open>startSession\<close> with \<^verbatim>\<open>resume\<close> equal to that id.
\<close>

theorem reset_frame:
  "(starting (sm s) \<noteq> None \<longrightarrow>
      reset (sm s) = sm s \<and> exec (CallReset # evs) s = exec evs s)
   \<and> (starting (sm s) = None \<longrightarrow>
      reset (sm s) = (sm s)\<lparr>sessionsSupported := None\<rparr>
      \<and> currentSessionID (sm (step CallReset s)) = currentSessionID (sm s)
      \<and> trace (exec [CallReset, CallGetSessionMetadata c] s)
          = trace s @ [StartSessionCalled \<lparr>resume = currentSessionID (sm s)\<rparr>])"
  by (auto simp add: session_defs loop_defs)

theorem reset_frame_witness:
  "(let busy = exec [CallGetSessionMetadata 1] robot;
        settled = exec [CallGetSessionMetadata 1, StartSessionSettles (Inr abc_response),
                        RunMicrotask, RunMicrotask, RunMicrotask] robot
    in starting (sm busy) = Some Pending
       \<and> exec [CallReset, StartSessionSettles (Inr abc_response)] busy
           = exec [StartSessionSettles (Inr abc_response)] busy
       \<and> starting (sm settled) = None
       \<and> sessionsSupported (sm (step CallReset settled)) = None
       \<and> currentSessionID (sm (step CallReset settled)) = ''abc''
       \<and> trace (exec [CallReset, CallGetSessionMetadata 2] settled)
           = trace settled @ [StartSessionCalled \<lparr>resume = ''abc''\<rparr>])"
  using reset_frame [of "exec [CallGetSessionMetadata 1] robot" "[StartSessionSettles (Inr abc_response)]" 2]
    reset_frame [of "exec [CallGetSessionMetadata 1, StartSessionSettles (Inr abc_response),
                        RunMicrotask, RunMicrotask, RunMicrotask] robot" "[]" 2]
  by (simp add: session_defs loop_defs)

section \<open>The heartbeat loop\<close>

text \<open>
  C4, evaluated on the code. After a session is established and its first heartbeat is
  answered, \<^verbatim>\<open>reset\<close> clears the support flag; the armed timer then fires and another
  heartbeat request is sent all the same, and again after that one is answered. Likewise
  when the negotiation after the reset records support as unsupported: the timer fires and
  a heartbeat request is sent. And when that negotiation succeeds, a second loop is
  started beside the first: one has its timer armed while the other has a request in
  flight.
\<close>

theorem heartbeat_continues_after_reset:
  "(let s = exec [CallGetSessionMetadata 1, StartSessionSettles (Inr abc_response),
                  RunMicrotask, RunMicrotask, RunMicrotask,
                  SendSessionHeartbeatSettles None, CallReset] robot;
        s' = exec [TimerFires 0, SendSessionHeartbeatSettles None, TimerFires 0] s;
        u = exec [CallGetSessionMetadata 2,
                  StartSessionSettles (Inl (ConnectError ''no such method'' Unimplemented))] s;
        u' = step (TimerFires 0) u;
        v = exec [CallGetSessionMetadata 2, StartSessionSettles (Inr abc_response),
                  RunMicrotask, RunMicrotask, RunMicrotask] s
    in sessionsSupported (sm s) = None \<and> sessionsSupported (sm s') = None
       \<and> trace s' = trace s @ [SendSessionHeartbeatCalled ''abc'', SendSessionHeartbeatCalled ''abc'']
       \<and> sessionsSupported (sm u) = Some False \<and> sessionsSupported (sm u') = Some False
       \<and> trace u' = trace u @ [SendSessionHeartbeatCalled ''abc'']
       \<and> timers v = [(True, Some 1000)] \<and> heartbeatsInFlight v = [True])"
  by (simp add: session_defs loop_defs)



end
